theory Spec2Isabelle
  imports Main
begin

section \<open>ZoneMinder motion events to MQTT gifs: a model of the handler\<close>

text \<open>
  The program is one Python module: two helper functions (\<open>zm_get_video\<close>,
  \<open>convert_zm_video_to_gif\<close>), the class \<open>ZoneMinderMotionEventHandler\<close> whose methods are
  the callbacks of the MQTT client, and the polling loop of \<open>main\<close>. Everything the module
  does is an effect on something outside it: the file system, the MQTT client, the external
  \<open>ffmpeg\<close> process, the log. The model threads a \<open>world\<close> through every function; the world
  holds the one mutable attribute of the handler (\<open>sub_connected\<close>), the files, and the
  sequence of effects in program order. Exceptions are values: a function that can raise
  returns \<open>exn + 'a\<close>, with \<open>Inl\<close> the exception.
\<close>

subsection \<open>Python strings and integers\<close>

text \<open>\<open>str(n)\<close> for an integer: decimal digits, a minus sign for a negative number.\<close>

definition digit_char :: "nat \<Rightarrow> char" where
  "digit_char d = ''0123456789'' ! d"

function str_nat :: "nat \<Rightarrow> string" where
  "str_nat n = (if n < 10 then [digit_char n] else str_nat (n div 10) @ [digit_char (n mod 10)])"
  by pat_completeness auto
termination
  by (relation "measure id") auto

declare str_nat.simps [simp del]

definition str_int :: "int \<Rightarrow> string" where
  "str_int i = (if i < 0 then CHR ''-'' # str_nat (nat (- i)) else str_nat (nat i))"

text \<open>
  \<open>s.zfill(width)\<close>: zeros on the left up to \<open>width\<close> characters, inserted after a leading
  sign; a string already that long is returned as it is.
\<close>

definition zfill :: "nat \<Rightarrow> string \<Rightarrow> string" where
  "zfill width s =
     (if width \<le> length s then s
      else (case s of
              [] \<Rightarrow> replicate width CHR ''0''
            | c # rest \<Rightarrow>
                if c = CHR ''+'' \<or> c = CHR ''-''
                then c # replicate (width - length s) CHR ''0'' @ rest
                else replicate (width - length s) CHR ''0'' @ s))"

text \<open>
  \<open>s.replace(old, new)\<close>: every occurrence of \<open>old\<close>, found left to right without overlap,
  becomes \<open>new\<close>; an empty \<open>old\<close> matches before every character and at the end.
\<close>

function replace :: "string \<Rightarrow> string \<Rightarrow> string \<Rightarrow> string" where
  "replace old new s =
     (if old = [] then new @ concat (map (\<lambda>c. c # new) s)
      else if s = [] then []
      else if take (length old) s = old then new @ replace old new (drop (length old) s)
      else hd s # replace old new (tl s))"
  by pat_completeness auto
termination
  by (relation "measure (\<lambda>(old, new, s). length s)") auto

declare replace.simps [simp del]

text \<open>\<open>str(datetime.date)\<close> is the ISO form \<open>YYYY-MM-DD\<close>, each field padded with zeros.\<close>

record date =
  year :: nat
  month :: nat
  day :: nat

definition date_str :: "date \<Rightarrow> string" where
  "date_str d =
     zfill 4 (str_nat (year d)) @ ''-'' @ zfill 2 (str_nat (month d)) @ ''-'' @
     zfill 2 (str_nat (day d))"

subsection \<open>Configuration and messages\<close>

text \<open>
  The configuration is the parsed JSON document; the model takes a document that has every
  key the code reads, with the numeric camera parameters as integers. The key \<open>id\<close> of a
  camera is the field \<open>cam_id\<close>.
\<close>

record camera =
  cam_id :: string
  event_video_prefix :: string
  scale :: int
  skip_first_n_secs :: int
  max_length_secs :: int

record config =
  mqtt_server :: string
  mqtt_port :: int
  mqtt_user :: string
  mqtt_pwd :: string
  mqtt_base_events_topic :: string
  mqtt_base_gifs_topic :: string
  ffmpeg_working_folder :: string
  zoneminder_events_video_folder :: string
  zoneminder_cameras :: "camera list"

text \<open>
  An inbound MQTT message. \<open>payload\<close> is what \<open>message.payload.decode("utf-8")\<close> gives: the
  text, or \<open>None\<close> when the bytes are not UTF-8 and the call raises \<open>UnicodeDecodeError\<close>.
\<close>

record message =
  topic :: string
  payload :: "string option"
  retain :: bool

subsection \<open>Exceptions, effects and the world\<close>

text \<open>
  The exceptions of the model are all subclasses of Python's \<open>Exception\<close>, the class the
  handlers of the module catch.
\<close>

datatype exn =
    UnicodeDecodeError
  | TypeError
  | FileNotFoundError
  | PermissionError
  | IsADirectoryError
  | SameFileError
  | OSError
  | ValueError

datatype level = Info | Error

text \<open>
  The effects, in the order the program makes them: a log call (level and format string), the
  calls on the MQTT client, the file copy, the external process with its argument vector,
  \<open>print\<close>, \<open>time.sleep\<close>, and a write of the flag \<open>sub_connected\<close>, which the main thread
  reads.
\<close>

datatype event =
    Log level string
  | Print string
  | Connect_async string int
  | Loop_start
  | Loop_stop
  | Client_disconnect
  | Subscribe string
  | Publish string string
  | Copyfile string string
  | Run "string list"
  | Remove string
  | Flag bool
  | Sleep nat

datatype file_entry = File (readable: bool) (content: string)

record world =
  sub_connected :: bool
  files :: "string \<rightharpoonup> file_entry"
  trace :: "event list"

definition emit :: "event \<Rightarrow> world \<Rightarrow> world" where
  "emit e w = w\<lparr>trace := trace w @ [e]\<rparr>"

text \<open>
  A call of the \<open>logging\<close> module never raises into its caller: an error while formatting the
  record is handled inside the module.
\<close>

definition logging :: "level \<Rightarrow> string \<Rightarrow> world \<Rightarrow> world" where
  "logging lvl fmt w = emit (Log lvl fmt) w"

definition set_sub_connected :: "bool \<Rightarrow> world \<Rightarrow> world" where
  "set_sub_connected b w = emit (Flag b) (w\<lparr>sub_connected := b\<rparr>)"

text \<open>
  What the program cannot decide is given by the environment: the calendar date, whether a
  call on the MQTT client raises or which return code it gives, and what the external tool
  does with an argument vector (it cannot be started, or it exits with a status, having
  written the output file or not). For the file copy it gives what the file system decides
  beyond the files themselves: whether two different spellings name one file
  (\<open>same_file\<close>), what opening a path for writing raises, if anything (\<open>open_write\<close>: the
  folder is missing or cannot be written, the path is a folder), and whether the transfer
  from one open file to the other breaks, and after how many bytes (\<open>transfer_breaks\<close>: a
  read error on the source, no space left for the destination).
\<close>

datatype tool_outcome = Launch_error exn | Exited int "string option"

record env =
  today :: date
  connect_async :: "string \<Rightarrow> int \<Rightarrow> exn option"
  loop_start :: "exn option"
  client_disconnect :: "exn option"
  subscribe :: "string \<Rightarrow> exn + int"
  publish :: "string \<Rightarrow> string \<Rightarrow> exn + int"
  ffmpeg :: "string list \<Rightarrow> tool_outcome"
  same_file :: "string \<Rightarrow> string \<Rightarrow> bool"
  open_write :: "string \<Rightarrow> exn option"
  transfer_breaks :: "string \<Rightarrow> string \<Rightarrow> nat option"

subsection \<open>File system and process calls\<close>

text \<open>
  \<open>shutil.copyfile(src, dst)\<close>, in the order of the library. It raises \<open>SameFileError\<close> when
  both paths name one existing file, by the same spelling or by two. It opens the source:
  \<open>FileNotFoundError\<close> when there is none, \<open>PermissionError\<close> when it cannot be opened for
  reading. It opens the destination for writing, which creates the file or empties the one
  that is there: what the file system raises for a missing or unwritable folder is raised
  before the destination is touched. Then it transfers the bytes; when the transfer breaks
  it raises \<open>OSError\<close> and leaves in the destination the bytes transferred so far. The files
  are keyed by the path as it is spelled.
\<close>

definition copyfile :: "env \<Rightarrow> string \<Rightarrow> string \<Rightarrow> world \<Rightarrow> (exn + unit) \<times> world" where
  "copyfile e src dst w =
     (let w1 = emit (Copyfile src dst) w in
      case files w1 src of
        None \<Rightarrow> (Inl FileNotFoundError, w1)
      | Some f \<Rightarrow>
          if src = dst \<or> same_file e src dst then (Inl SameFileError, w1)
          else if \<not> readable f then (Inl PermissionError, w1)
          else
            (case open_write e dst of
               Some err \<Rightarrow> (Inl err, w1)
             | None \<Rightarrow>
                 (case transfer_breaks e src dst of
                    Some n \<Rightarrow>
                      (Inl OSError,
                       w1\<lparr>files := (files w1)(dst \<mapsto>
                         File (case files w1 dst of None \<Rightarrow> True | Some g \<Rightarrow> readable g)
                              (take n (content f)))\<rparr>)
                  | None \<Rightarrow>
                      (Inr (),
                       w1\<lparr>files := (files w1)(dst \<mapsto>
                         File (case files w1 dst of None \<Rightarrow> True | Some g \<Rightarrow> readable g)
                              (content f))\<rparr>))))"

text \<open>\<open>os.remove(path)\<close> raises \<open>FileNotFoundError\<close> when there is no such file.\<close>

definition os_remove :: "string \<Rightarrow> world \<Rightarrow> (exn + unit) \<times> world" where
  "os_remove path w =
     (let w1 = emit (Remove path) w in
      case files w1 path of
        None \<Rightarrow> (Inl FileNotFoundError, w1)
      | Some f \<Rightarrow> (Inr (), w1\<lparr>files := (files w1)(path := None)\<rparr>))"

text \<open>
  \<open>subprocess.call(argv)\<close> raises when the program cannot be started and returns the exit
  status otherwise. The tool writes its output, if any, to the file named by the last
  argument (\<open>-y\<close>: an existing file is overwritten).
\<close>

definition subprocess_call :: "env \<Rightarrow> string list \<Rightarrow> world \<Rightarrow> (exn + int) \<times> world" where
  "subprocess_call e argv w =
     (let w1 = emit (Run argv) w in
      case ffmpeg e argv of
        Launch_error err \<Rightarrow> (Inl err, w1)
      | Exited retcode None \<Rightarrow> (Inr retcode, w1)
      | Exited retcode (Some gif) \<Rightarrow>
          (Inr retcode, w1\<lparr>files := (files w1)(last argv \<mapsto> File True gif)\<rparr>))"

subsection \<open>The two helper functions\<close>

definition source_video_path :: "string \<Rightarrow> date \<Rightarrow> string \<Rightarrow> string \<Rightarrow> string" where
  "source_video_path source_folder d video_prefix event_id =
     source_folder @ ''/'' @ date_str d @ ''/'' @
     (video_prefix @ [] @ event_id) @ ''.mp4''"

definition outfile_video_path :: "string \<Rightarrow> string \<Rightarrow> string" where
  "outfile_video_path working_folder event_id =
     working_folder @ ''/'' @ event_id @ ''.mp4''"

definition zm_get_video ::
  "env \<Rightarrow> string \<Rightarrow> string \<Rightarrow> string \<Rightarrow> string \<Rightarrow> world \<Rightarrow> (exn + string) \<times> world" where
  "zm_get_video e working_folder source_folder video_prefix event_id w =
     (let source_video =
            source_video_path source_folder (today e) video_prefix event_id;
          outfile_video = outfile_video_path working_folder event_id;
          w1 = logging Info ''Copying video for event id %s from %s to %s .....'' w
      in case copyfile e source_video outfile_video w1 of
           (Inl err, w2) \<Rightarrow> (Inl err, w2)
         | (Inr _, w2) \<Rightarrow> (Inr outfile_video, logging Info ''.....done'' w2))"

text \<open>The argument vector of the external tool, as the list literal of the source builds it.\<close>

definition ffmpeg_args :: "int \<Rightarrow> int \<Rightarrow> int \<Rightarrow> string \<Rightarrow> string \<Rightarrow> string list" where
  "ffmpeg_args scl skip maxlen input_video output_gif =
     [''ffmpeg'', ''-stats'', ''-i'', input_video, ''-vf'',
      ''fps=15,scale='' @ str_int scl @ '':-1:flags=lanczos'',
      ''-ss'', ''00:00:'' @ zfill 2 (str_int skip), ''-t'', str_int maxlen, ''-y'',
      output_gif]"

definition convert_zm_video_to_gif ::
  "env \<Rightarrow> int \<Rightarrow> int \<Rightarrow> int \<Rightarrow> string \<Rightarrow> string \<Rightarrow> world \<Rightarrow> (exn + int) \<times> world" where
  "convert_zm_video_to_gif e scl skip maxlen input_video output_gif w =
     (let w1 = logging Info
            ''Converting to gif scale %i skip_first_n_secs %i max_length_secs %i input_video %s output_gif %s .....''
            w
      in case subprocess_call e (ffmpeg_args scl skip maxlen input_video output_gif) w1 of
           (Inl err, w2) \<Rightarrow> (Inl err, w2)
         | (Inr retcode, w2) \<Rightarrow>
             (case os_remove input_video w2 of
                (Inl err, w3) \<Rightarrow> (Inl err, w3)
              | (Inr _, w3) \<Rightarrow> (Inr retcode, logging Info ''.....done'' w3)))"

subsection \<open>The handler\<close>

text \<open>\<open>__init__\<close>: the flag starts cleared; nothing has happened yet.\<close>

definition init_world :: "(string \<rightharpoonup> file_entry) \<Rightarrow> world" where
  "init_world fs = \<lparr>sub_connected = False, files = fs, trace = []\<rparr>"

text \<open>
  \<open>disconnect\<close> wraps the client call in its own handler, so it returns normally whatever the
  client does.
\<close>

definition disconnect :: "config \<Rightarrow> env \<Rightarrow> world \<Rightarrow> world" where
  "disconnect cfg e w =
     (let w1 = emit Client_disconnect
                 (logging Info ''disconnecting from mqtt_server %s mqtt_port %i'' w)
      in case client_disconnect e of
           None \<Rightarrow> w1
         | Some err \<Rightarrow> logging Error ''disconnect exception'' w1)"

definition connect :: "config \<Rightarrow> env \<Rightarrow> world \<Rightarrow> world" where
  "connect cfg e w =
     (let w1 = emit (Connect_async (mqtt_server cfg) (mqtt_port cfg))
                 (logging Info ''connecting to mqtt_server %s mqtt_port %i'' w)
      in case connect_async e (mqtt_server cfg) (mqtt_port cfg) of
           Some err \<Rightarrow> disconnect cfg e (logging Error ''connect exception'' w1)
         | None \<Rightarrow>
             (let w2 = emit Loop_start w1
              in case loop_start e of
                   Some err \<Rightarrow> disconnect cfg e (logging Error ''connect exception'' w2)
                 | None \<Rightarrow> w2))"

text \<open>The loop of \<open>on_connect\<close> over the cameras; it stops at the first call that raises.\<close>

fun subscribe_cameras :: "config \<Rightarrow> env \<Rightarrow> camera list \<Rightarrow> world \<Rightarrow> (exn + unit) \<times> world" where
  "subscribe_cameras cfg e [] w = (Inr (), w)"
| "subscribe_cameras cfg e (cam # rest) w =
     (let w1 = emit (Subscribe (mqtt_base_events_topic cfg @ ''/'' @ cam_id cam))
                 (logging Info ''subscribing topic %s for camera %s'' w)
      in case subscribe e (mqtt_base_events_topic cfg @ ''/'' @ cam_id cam) of
           Inl err \<Rightarrow> (Inl err, w1)
         | Inr _ \<Rightarrow> subscribe_cameras cfg e rest w1)"

definition on_connect :: "config \<Rightarrow> env \<Rightarrow> int \<Rightarrow> world \<Rightarrow> world" where
  "on_connect cfg e rc w =
     (case subscribe_cameras cfg e (zoneminder_cameras cfg)
             (logging Info ''connected to mqtt_server %s  mqtt_port %i'' w) of
        (Inl err, w1) \<Rightarrow> disconnect cfg e (logging Error ''on_connect exception'' w1)
      | (Inr _, w1) \<Rightarrow> set_sub_connected True w1)"

definition on_disconnect :: "int \<Rightarrow> world \<Rightarrow> world" where
  "on_disconnect rc w =
     (let w1 = logging Info ''disconnected %s'' w;
          w2 = (if rc \<noteq> 0 then logging Info ''unexpected disconnection.'' w1 else w1)
      in emit Loop_stop (set_sub_connected False w2))"

definition on_subscribe :: "int \<Rightarrow> world \<Rightarrow> world" where
  "on_subscribe mid w = set_sub_connected True (logging Info ''subscribed topic %s'' w)"

definition on_publish :: "int \<Rightarrow> world \<Rightarrow> world" where
  "on_publish mid w = set_sub_connected True (logging Info ''published message %s'' w)"

text \<open>
  \<open>publish_gif\<close> returns \<open>True\<close> when the client call returns, and falls off its end (the
  value \<open>None\<close>) after the handler of an exception.
\<close>

definition publish_gif ::
  "config \<Rightarrow> env \<Rightarrow> string \<Rightarrow> string \<Rightarrow> world \<Rightarrow> bool option \<times> world" where
  "publish_gif cfg e camera_topic gif w =
     (let w1 = emit (Publish (mqtt_base_gifs_topic cfg @ ''/'' @ camera_topic) gif) w
      in case publish e (mqtt_base_gifs_topic cfg @ ''/'' @ camera_topic) gif of
           Inr retcode \<Rightarrow> (Some True, logging Info ''mqtt_client.publish retcode %s'' w1)
         | Inl err \<Rightarrow> (None, disconnect cfg e (logging Error ''publish exception'' w1)))"

text \<open>The truth value of what \<open>publish_gif\<close> returns, as \<open>if public_retcode:\<close> tests it.\<close>

definition truthy :: "bool option \<Rightarrow> bool" where
  "truthy r = (case r of None \<Rightarrow> False | Some b \<Rightarrow> b)"

definition bool_str :: "bool \<Rightarrow> string" where
  "bool_str b = (if b then ''True'' else ''False'')"

text \<open>
  The body of the \<open>try\<close> of \<open>on_message\<close>. Subscripting the \<open>None\<close> that the camera search
  gives for an unknown identifier raises \<open>TypeError\<close>.
\<close>

definition on_message_try :: "config \<Rightarrow> env \<Rightarrow> message \<Rightarrow> world \<Rightarrow> (exn + unit) \<times> world" where
  "on_message_try cfg e msg w =
     (case payload msg of
        None \<Rightarrow> (Inl UnicodeDecodeError, w)
      | Some event_id \<Rightarrow>
          (let w1 = emit (Print (''message received   '' @ event_id @ '' topic '' @ topic msg @
                                 '' retained  '' @ bool_str (retain msg))) w;
               camera_id = replace (mqtt_base_events_topic cfg @ ''/'') [] (topic msg)
           in case find (\<lambda>x. cam_id x = camera_id) (zoneminder_cameras cfg) of
                None \<Rightarrow> (Inl TypeError, w1)
              | Some cam \<Rightarrow>
                  (let w2 = logging Info
                         ''Getting event video for camera %s from base directory %s with event prefix %s''
                         w1
                   in case zm_get_video e (ffmpeg_working_folder cfg)
                             (zoneminder_events_video_folder cfg) (event_video_prefix cam)
                             event_id w2 of
                        (Inl err, w3) \<Rightarrow> (Inl err, w3)
                      | (Inr outfile_video, w3) \<Rightarrow>
                          (let w4 = logging Info ''Found video for camera %s'' w3;
                               outfile_gif = ffmpeg_working_folder cfg @ ''/'' @ event_id @ ''.gif''
                           in case convert_zm_video_to_gif e (scale cam) (skip_first_n_secs cam)
                                     (max_length_secs cam) outfile_video outfile_gif w4 of
                                (Inl err, w5) \<Rightarrow> (Inl err, w5)
                              | (Inr convert_retcode, w5) \<Rightarrow>
                                  if convert_retcode = 0 then
                                    (case publish_gif cfg e (cam_id cam) (event_id @ ''.gif'') w5 of
                                       (public_retcode, w6) \<Rightarrow>
                                         if truthy public_retcode then
                                           (Inr (), logging Info
                                              ''Done processing event_id %s for camera %s'' w6)
                                         else
                                           (Inr (), logging Error
                                              ''Invalid return code from mqtt publish for event id %i camera topic %s''
                                              w6))
                                  else
                                    (Inr (), logging Error
                                       ''Invalid return code from ffmpeg subprocess call for event id %i''
                                       w5)))))"

text \<open>
  \<open>on_message\<close>: the \<open>try\<close> with its handler for \<open>Exception\<close>. The result says whether an
  exception leaves the callback.
\<close>

definition on_message :: "config \<Rightarrow> env \<Rightarrow> message \<Rightarrow> world \<Rightarrow> (exn + unit) \<times> world" where
  "on_message cfg e msg w =
     (case on_message_try cfg e msg w of
        (Inr _, w1) \<Rightarrow> (Inr (), w1)
      | (Inl err, w1) \<Rightarrow> (Inr (), disconnect cfg e (logging Error ''on message exception'' w1)))"

text \<open>One round of the loop of \<open>main\<close>: connect when the flag is cleared, then sleep.\<close>

definition main_loop_round :: "config \<Rightarrow> env \<Rightarrow> world \<Rightarrow> world" where
  "main_loop_round cfg e w =
     emit (Sleep 10) (if \<not> sub_connected w then connect cfg e w else w)"

subsection \<open>Observations on a run\<close>

text \<open>
  The effects a call added to the trace, and tests on single effects. They are what the
  statements below speak about; the program does not use them.
\<close>

definition new_events :: "world \<Rightarrow> world \<Rightarrow> event list" where
  "new_events w w' = drop (length (trace w)) (trace w')"

fun is_publish :: "event \<Rightarrow> bool" where
  "is_publish (Publish t p) = True"
| "is_publish ev = False"

fun is_subscribe :: "event \<Rightarrow> bool" where
  "is_subscribe (Subscribe t) = True"
| "is_subscribe ev = False"

fun is_copyfile :: "event \<Rightarrow> bool" where
  "is_copyfile (Copyfile s d) = True"
| "is_copyfile ev = False"

fun is_run :: "event \<Rightarrow> bool" where
  "is_run (Run argv) = True"
| "is_run ev = False"

fun is_error_log :: "event \<Rightarrow> bool" where
  "is_error_log (Log Error fmt) = True"
| "is_error_log ev = False"

fun is_disconnect :: "event \<Rightarrow> bool" where
  "is_disconnect Client_disconnect = True"
| "is_disconnect ev = False"

fun is_connect :: "event \<Rightarrow> bool" where
  "is_connect (Connect_async h p) = True"
| "is_connect ev = False"

fun is_flag :: "event \<Rightarrow> bool" where
  "is_flag (Flag b) = True"
| "is_flag ev = False"

text \<open>What one call of \<open>disconnect\<close> adds to the trace.\<close>

definition disconnect_events :: "env \<Rightarrow> event list" where
  "disconnect_events e =
     [Log Info ''disconnecting from mqtt_server %s mqtt_port %i'', Client_disconnect] @
     (case client_disconnect e of None \<Rightarrow> [] | Some err \<Rightarrow> [Log Error ''disconnect exception''])"

text \<open>
  The three calls \<open>on_message\<close> makes for a known camera, each in the world the call before it
  left: the fetch, the conversion, the publication.
\<close>

definition world_at_fetch :: "message \<Rightarrow> string \<Rightarrow> world \<Rightarrow> world" where
  "world_at_fetch msg event_id w =
     logging Info ''Getting event video for camera %s from base directory %s with event prefix %s''
       (emit (Print (''message received   '' @ event_id @ '' topic '' @ topic msg @
                     '' retained  '' @ bool_str (retain msg))) w)"





subsection \<open>Observations on the connection\<close>

text \<open>
  The channel \<open>on_connect\<close> subscribes to for a camera, and what one subscription adds to
  the trace.
\<close>

definition events_channel :: "config \<Rightarrow> camera \<Rightarrow> string" where
  "events_channel cfg cam = mqtt_base_events_topic cfg @ ''/'' @ cam_id cam"

definition subscribe_events :: "config \<Rightarrow> camera \<Rightarrow> event list" where
  "subscribe_events cfg cam =
     [Log Info ''subscribing topic %s for camera %s'', Subscribe (events_channel cfg cam)]"

text \<open>
  The cameras for which \<open>on_connect\<close> calls the client: all of them up to and including the
  first whose call raises.
\<close>

fun attempted :: "config \<Rightarrow> env \<Rightarrow> camera list \<Rightarrow> camera list" where
  "attempted cfg e [] = []"
| "attempted cfg e (cam # rest) =
     cam # (if isl (subscribe e (events_channel cfg cam)) then [] else attempted cfg e rest)"

text \<open>
  The specification's reading of the order, over a trace: every subscribe call is made while
  the flag is set, the flag starting as given.
\<close>

fun subscribes_after_connected :: "bool \<Rightarrow> event list \<Rightarrow> bool" where
  "subscribes_after_connected connected [] = True"
| "subscribes_after_connected connected (Flag b # evs) = subscribes_after_connected b evs"
| "subscribes_after_connected connected (Subscribe t # evs) =
     (connected \<and> subscribes_after_connected connected evs)"
| "subscribes_after_connected connected (ev # evs) = subscribes_after_connected connected evs"

subsection \<open>Observations on the publication, the camera identifier and the seek offset\<close>

text \<open>The channel \<open>publish_gif\<close> sends on for a camera identifier.\<close>

definition gifs_channel :: "config \<Rightarrow> string \<Rightarrow> string" where
  "gifs_channel cfg camera_topic = mqtt_base_gifs_topic cfg @ ''/'' @ camera_topic"

text \<open>
  The outcome of a send as the client library documents it, which is not part of the
  repository: \<open>publish\<close> hands back a return code, 0 (\<open>MQTT_ERR_SUCCESS\<close>) when the message
  went out and another value (4, \<open>MQTT_ERR_NO_CONN\<close>, without a connection) when it did not;
  a call that raises has not sent either.
\<close>

definition send_succeeded :: "exn + int \<Rightarrow> bool" where
  "send_succeeded r = (case r of Inl err \<Rightarrow> False | Inr retcode \<Rightarrow> retcode = 0)"

text \<open>
  Stated from the specification's words, to compare with what \<open>on_message\<close> computes: the
  leading prefix removed once, from the front, and the rest of the string unchanged.
\<close>

definition strip_leading :: "string \<Rightarrow> string \<Rightarrow> string" where
  "strip_leading pre s = (if take (length pre) s = pre then drop (length pre) s else s)"

text \<open>Whether \<open>old\<close> occurs somewhere in a string.\<close>

fun occurs_in :: "string \<Rightarrow> string \<Rightarrow> bool" where
  "occurs_in old [] = (old = [])"
| "occurs_in old (c # cs) = (take (length old) (c # cs) = old \<or> occurs_in old cs)"

text \<open>
  Stated from the specification's words, to compare with the seek argument the code builds: a
  number of seconds as \<open>HH:MM:SS\<close>.
\<close>

definition two_digits :: "nat \<Rightarrow> string" where
  "two_digits n = zfill 2 (str_nat n)"

definition hh_mm_ss :: "nat \<Rightarrow> string" where
  "hh_mm_ss secs =
     two_digits (secs div 3600) @ '':'' @ two_digits (secs div 60 mod 60) @ '':'' @
     two_digits (secs mod 60)"

text \<open>
  Reading a decimal rendering back, used to show that \<open>str_int\<close> and the padded form never
  give one string for two numbers.
\<close>

definition digit_val :: "char \<Rightarrow> nat" where
  "digit_val c = of_char c - 48"

definition parse_nat :: "string \<Rightarrow> nat" where
  "parse_nat s = foldl (\<lambda>a c. 10 * a + digit_val c) 0 s"

definition parse_int :: "string \<Rightarrow> int" where
  "parse_int s =
     (case s of
        [] \<Rightarrow> 0
      | c # rest \<Rightarrow> if c = CHR ''-'' then - int (parse_nat rest) else int (parse_nat s))"

subsection \<open>Concrete installations\<close>

text \<open>
  One camera, the profile of the specification's example; a broker and a tool that accept
  everything; the clip of event \<open>123\<close> recorded on the day of the run.
\<close>

definition ex_cam :: camera where
  "ex_cam = \<lparr>cam_id = ''cam1'', event_video_prefix = ''cam1-'', scale = 480,
             skip_first_n_secs = 2, max_length_secs = 8\<rparr>"

definition ex_cfg :: config where
  "ex_cfg = \<lparr>mqtt_server = ''broker'', mqtt_port = 1883, mqtt_user = ''u'', mqtt_pwd = ''p'',
             mqtt_base_events_topic = ''zm/events'', mqtt_base_gifs_topic = ''zm/gifs'',
             ffmpeg_working_folder = ''/work'', zoneminder_events_video_folder = ''/zm'',
             zoneminder_cameras = [ex_cam]\<rparr>"

definition ex_env :: env where
  "ex_env = \<lparr>today = \<lparr>year = 2024, month = 3, day = 7\<rparr>,
             connect_async = (\<lambda>h p. None), loop_start = None, client_disconnect = None,
             subscribe = (\<lambda>t. Inr 0), publish = (\<lambda>t p. Inr 0),
             ffmpeg = (\<lambda>argv. Exited 0 (Some ''GIF'')),
             same_file = (\<lambda>a b. False), open_write = (\<lambda>p. None),
             transfer_breaks = (\<lambda>a b. None)\<rparr>"


definition ex_world :: world where
  "ex_world = init_world [''/zm/2024-03-07/cam1-123.mp4'' \<mapsto> File True ''MP4'']"

text \<open>A notification for a camera that is not configured.\<close>

definition ex_msg_unknown :: message where
  "ex_msg_unknown = \<lparr>topic = ''zm/events/cam9'', payload = Some ''123'', retain = False\<rparr>"




text \<open>
  An environment in which the working folder cannot take a new file, and one in which the
  transfer of a copy breaks after the first byte.
\<close>

definition ex_env_no_folder :: env where
  "ex_env_no_folder = ex_env\<lparr>open_write := (\<lambda>p. Some FileNotFoundError)\<rparr>"

definition ex_env_read_error :: env where
  "ex_env_read_error = ex_env\<lparr>transfer_breaks := (\<lambda>a b. Some 1)\<rparr>"

text \<open>Two cameras; and a broker client that refuses the channel of the first.\<close>

definition ex_cfg_two :: config where
  "ex_cfg_two = ex_cfg\<lparr>zoneminder_cameras := [ex_cam, ex_cam\<lparr>cam_id := ''cam2''\<rparr>]\<rparr>"

definition ex_env_sub_fails :: env where
  "ex_env_sub_fails =
     ex_env\<lparr>subscribe := (\<lambda>t. if t = ''zm/events/cam1'' then Inl ValueError else Inr 0)\<rparr>"

text \<open>An environment whose client has no connection when asked to publish.\<close>

definition ex_env_no_conn :: env where
  "ex_env_no_conn = ex_env\<lparr>publish := (\<lambda>t p. Inr 4)\<rparr>"

text \<open>A configuration whose events base topic is \<open>cam\<close>, with the camera \<open>dashcam/front\<close>.\<close>

definition ex_cam_dash :: camera where
  "ex_cam_dash = ex_cam\<lparr>cam_id := ''dashcam/front''\<rparr>"

definition ex_cfg_dash :: config where
  "ex_cfg_dash = ex_cfg\<lparr>mqtt_base_events_topic := ''cam'', zoneminder_cameras := [ex_cam_dash]\<rparr>"

section \<open>Decimal renderings\<close>

text \<open>
  What \<open>str_nat\<close> and \<open>zfill\<close> give for numbers of up to four digits, and with them the
  rendering of a date: four digits of year, two of month, two of day, dashes between.
\<close>

lemma digit_char_0: "digit_char 0 = CHR ''0''"
  by (simp add: digit_char_def)

lemma digit_cases: "d < 10 \<Longrightarrow> d \<in> {0, 1, 2, 3, 4, 5, 6, 7, 8, 9::nat}"
  by auto

lemma digit_char_not_sign: "d < 10 \<Longrightarrow> digit_char d \<noteq> CHR ''-'' \<and> digit_char d \<noteq> CHR ''+''"
  using digit_cases [of d] by (auto simp add: digit_char_def)

lemma str_nat_1: "n < 10 \<Longrightarrow> str_nat n = [digit_char n]"
  by (simp add: str_nat.simps [of n])

lemma str_nat_2: "10 \<le> n \<Longrightarrow> n < 100 \<Longrightarrow> str_nat n = [digit_char (n div 10), digit_char (n mod 10)]"
  by (simp add: str_nat.simps [of n] str_nat_1)

lemma div_10_10: "n div 10 div 10 = n div (100::nat)"
  by (simp add: div_mult2_eq [symmetric])

lemma div_10_100: "n div 10 div 100 = n div (1000::nat)"
  by (simp add: div_mult2_eq [symmetric])

lemma str_nat_3:
  "100 \<le> n \<Longrightarrow> n < 1000 \<Longrightarrow>
   str_nat n = [digit_char (n div 100), digit_char (n div 10 mod 10), digit_char (n mod 10)]"
  by (simp add: str_nat.simps [of n] str_nat_2 div_10_10)

lemma str_nat_4:
  "1000 \<le> n \<Longrightarrow> n < 10000 \<Longrightarrow>
   str_nat n = [digit_char (n div 1000), digit_char (n div 100 mod 10),
                digit_char (n div 10 mod 10), digit_char (n mod 10)]"
  by (simp add: str_nat.simps [of n] str_nat_3 div_10_10 div_10_100)

lemma zfill_2_str_nat:
  assumes "n < 100"
  shows "zfill 2 (str_nat n) = [digit_char (n div 10), digit_char (n mod 10)]"
proof (cases "n < 10")
  case True
  then show ?thesis
    using digit_char_not_sign [of n] by (simp add: str_nat_1 zfill_def digit_char_0)
next
  case False
  then show ?thesis
    using assms by (simp add: str_nat_2 zfill_def)
qed

lemma replicate_3: "replicate 3 c = [c, c, c]"
  by (simp add: numeral_3_eq_3)

lemma replicate_2: "replicate 2 c = [c, c]"
  by (simp add: numeral_2_eq_2)

lemma zfill_4_str_nat:
  assumes "n < 10000"
  shows "zfill 4 (str_nat n) =
           [digit_char (n div 1000), digit_char (n div 100 mod 10),
            digit_char (n div 10 mod 10), digit_char (n mod 10)]"
proof -
  consider "n < 10" | "10 \<le> n" "n < 100" | "100 \<le> n" "n < 1000" | "1000 \<le> n"
    by linarith
  then show ?thesis
  proof cases
    case 1
    then have "n div 1000 = 0" "n div 100 = 0" "n div 10 = 0" "n mod 10 = n"
      by simp_all
    then show ?thesis
      using 1 digit_char_not_sign [of n]
      by (simp add: str_nat_1 zfill_def digit_char_0 replicate_3)
  next
    case 2
    then have "n div 1000 = 0" "n div 100 = 0" "n div 10 < 10" "n div 10 mod 10 = n div 10"
      by simp_all
    then show ?thesis
      using 2 digit_char_not_sign [of "n div 10"]
      by (simp add: str_nat_2 zfill_def digit_char_0 replicate_2)
  next
    case 3
    then have "n div 1000 = 0" "n div 100 < 10" "n div 100 mod 10 = n div 100"
      by simp_all
    then show ?thesis
      using 3 digit_char_not_sign [of "n div 100"]
      by (simp add: str_nat_3 zfill_def digit_char_0)
  next
    case 4
    then show ?thesis
      using assms by (simp add: str_nat_4 zfill_def)
  qed
qed

lemma date_str_digits:
  assumes "year d < 10000" and "month d < 100" and "day d < 100"
  shows "date_str d =
           [digit_char (year d div 1000), digit_char (year d div 100 mod 10),
            digit_char (year d div 10 mod 10), digit_char (year d mod 10), CHR ''-'',
            digit_char (month d div 10), digit_char (month d mod 10), CHR ''-'',
            digit_char (day d div 10), digit_char (day d mod 10)]"
  using assms by (simp add: date_str_def zfill_2_str_nat zfill_4_str_nat)

section \<open>How each operation changes the world\<close>

text \<open>
  For every operation: its result, and the trace, the files and the flag of the world it
  leaves, each in terms of the world it was called in.
\<close>

lemma emit_fields [simp]:
  "trace (emit ev w) = trace w @ [ev]"
  "files (emit ev w) = files w"
  "sub_connected (emit ev w) = sub_connected w"
  by (simp_all add: emit_def)

lemma logging_fields [simp]:
  "trace (logging lvl fmt w) = trace w @ [Log lvl fmt]"
  "files (logging lvl fmt w) = files w"
  "sub_connected (logging lvl fmt w) = sub_connected w"
  by (simp_all add: logging_def)

lemma set_sub_connected_fields [simp]:
  "trace (set_sub_connected b w) = trace w @ [Flag b]"
  "files (set_sub_connected b w) = files w"
  "sub_connected (set_sub_connected b w) = b"
  by (simp_all add: set_sub_connected_def)

lemma copyfile_fst:
  "fst (copyfile e src dst w) =
     (case files w src of
        None \<Rightarrow> Inl FileNotFoundError
      | Some f \<Rightarrow>
          if src = dst \<or> same_file e src dst then Inl SameFileError
          else if \<not> readable f then Inl PermissionError
          else (case open_write e dst of
                  Some err \<Rightarrow> Inl err
                | None \<Rightarrow>
                    (case transfer_breaks e src dst of
                       Some n \<Rightarrow> Inl OSError
                     | None \<Rightarrow> Inr ())))"
  by (simp add: copyfile_def Let_def split: option.splits)

lemma copyfile_trace [simp]:
  "trace (snd (copyfile e src dst w)) = trace w @ [Copyfile src dst]"
  by (simp add: copyfile_def Let_def split: option.splits)

lemma copyfile_flag [simp]:
  "sub_connected (snd (copyfile e src dst w)) = sub_connected w"
  by (simp add: copyfile_def Let_def split: option.splits)

lemma copyfile_files:
  "files (snd (copyfile e src dst w)) =
     (case files w src of
        None \<Rightarrow> files w
      | Some f \<Rightarrow>
          if src = dst \<or> same_file e src dst \<or> \<not> readable f \<or> open_write e dst \<noteq> None
          then files w
          else (files w)(dst \<mapsto>
                  File (case files w dst of None \<Rightarrow> True | Some g \<Rightarrow> readable g)
                       (case transfer_breaks e src dst of
                          None \<Rightarrow> content f
                        | Some n \<Rightarrow> take n (content f))))"
  by (auto simp add: copyfile_def Let_def split: option.splits)


lemma os_remove_trace [simp]:
  "trace (snd (os_remove path w)) = trace w @ [Remove path]"
  by (simp add: os_remove_def Let_def split: option.splits)

lemma os_remove_flag [simp]:
  "sub_connected (snd (os_remove path w)) = sub_connected w"
  by (simp add: os_remove_def Let_def split: option.splits)

lemma os_remove_files [simp]:
  "files (snd (os_remove path w)) = (files w)(path := None)"
  by (auto simp add: os_remove_def Let_def split: option.splits)


lemma subprocess_call_trace [simp]:
  "trace (snd (subprocess_call e argv w)) = trace w @ [Run argv]"
  by (simp add: subprocess_call_def Let_def split: tool_outcome.splits option.splits)

lemma subprocess_call_flag [simp]:
  "sub_connected (snd (subprocess_call e argv w)) = sub_connected w"
  by (simp add: subprocess_call_def Let_def split: tool_outcome.splits option.splits)


lemma zm_get_video_eq:
  "zm_get_video e wdir sdir pr ev w =
     (let c = copyfile e (source_video_path sdir (today e) pr ev) (outfile_video_path wdir ev)
                (logging Info ''Copying video for event id %s from %s to %s .....'' w)
      in case fst c of
           Inl err \<Rightarrow> (Inl err, snd c)
         | Inr u \<Rightarrow> (Inr (outfile_video_path wdir ev), logging Info ''.....done'' (snd c)))"
  by (simp add: zm_get_video_def Let_def split: prod.splits sum.splits)

lemma zm_get_video_fst:
  "fst (zm_get_video e wdir sdir pr ev w) =
     (case files w (source_video_path sdir (today e) pr ev) of
        None \<Rightarrow> Inl FileNotFoundError
      | Some f \<Rightarrow>
          if source_video_path sdir (today e) pr ev = outfile_video_path wdir ev \<or>
             same_file e (source_video_path sdir (today e) pr ev) (outfile_video_path wdir ev)
          then Inl SameFileError
          else if \<not> readable f then Inl PermissionError
          else (case open_write e (outfile_video_path wdir ev) of
                  Some err \<Rightarrow> Inl err
                | None \<Rightarrow>
                    (case transfer_breaks e (source_video_path sdir (today e) pr ev)
                            (outfile_video_path wdir ev) of
                       Some n \<Rightarrow> Inl OSError
                     | None \<Rightarrow> Inr (outfile_video_path wdir ev))))"
  by (simp add: zm_get_video_eq Let_def copyfile_fst split: option.splits)

lemma zm_get_video_trace:
  "trace (snd (zm_get_video e wdir sdir pr ev w)) =
     trace w @
     [Log Info ''Copying video for event id %s from %s to %s .....'',
      Copyfile (source_video_path sdir (today e) pr ev) (outfile_video_path wdir ev)] @
     (case fst (zm_get_video e wdir sdir pr ev w) of
        Inl err \<Rightarrow> []
      | Inr p \<Rightarrow> [Log Info ''.....done''])"
  by (simp add: zm_get_video_eq Let_def split: sum.splits)

lemma zm_get_video_flag [simp]:
  "sub_connected (snd (zm_get_video e wdir sdir pr ev w)) = sub_connected w"
  by (simp add: zm_get_video_eq Let_def split: sum.splits)

lemma zm_get_video_files:
  "files (snd (zm_get_video e wdir sdir pr ev w)) =
     files (snd (copyfile e (source_video_path sdir (today e) pr ev) (outfile_video_path wdir ev) w))"
  by (simp add: zm_get_video_eq Let_def copyfile_files split: sum.splits option.splits)


lemma convert_eq:
  "convert_zm_video_to_gif e scl skip maxlen input_video output_gif w =
     (let c = subprocess_call e (ffmpeg_args scl skip maxlen input_video output_gif)
                (logging Info
                   ''Converting to gif scale %i skip_first_n_secs %i max_length_secs %i input_video %s output_gif %s .....''
                   w)
      in case fst c of
           Inl err \<Rightarrow> (Inl err, snd c)
         | Inr retcode \<Rightarrow>
             (let r = os_remove input_video (snd c)
              in case fst r of
                   Inl err \<Rightarrow> (Inl err, snd r)
                 | Inr u \<Rightarrow> (Inr retcode, logging Info ''.....done'' (snd r))))"
  by (simp add: convert_zm_video_to_gif_def Let_def split: prod.splits sum.splits)


lemma last_ffmpeg_args [simp]: "last (ffmpeg_args scl skip maxlen i out) = out"
  by (simp add: ffmpeg_args_def)



lemma convert_flag [simp]:
  "sub_connected (snd (convert_zm_video_to_gif e scl skip maxlen i out w)) = sub_connected w"
  by (simp add: convert_eq Let_def split: sum.splits)


lemma disconnect_fields [simp]:
  "trace (disconnect cfg e w) = trace w @ disconnect_events e"
  "files (disconnect cfg e w) = files w"
  "sub_connected (disconnect cfg e w) = sub_connected w"
  by (simp_all add: disconnect_def disconnect_events_def Let_def split: option.splits)

lemma publish_gif_fst:
  "fst (publish_gif cfg e camera_topic gif w) =
     (case publish e (mqtt_base_gifs_topic cfg @ ''/'' @ camera_topic) gif of
        Inl err \<Rightarrow> None | Inr retcode \<Rightarrow> Some True)"
  by (simp add: publish_gif_def Let_def split: sum.splits)

lemma publish_gif_trace:
  "trace (snd (publish_gif cfg e camera_topic gif w)) =
     trace w @
     Publish (mqtt_base_gifs_topic cfg @ ''/'' @ camera_topic) gif #
     (case publish e (mqtt_base_gifs_topic cfg @ ''/'' @ camera_topic) gif of
        Inl err \<Rightarrow> Log Error ''publish exception'' # disconnect_events e
      | Inr retcode \<Rightarrow> [Log Info ''mqtt_client.publish retcode %s''])"
  by (simp add: publish_gif_def Let_def split: sum.splits)

lemma publish_gif_unchanged [simp]:
  "files (snd (publish_gif cfg e camera_topic gif w)) = files w"
  "sub_connected (snd (publish_gif cfg e camera_topic gif w)) = sub_connected w"
  by (simp_all add: publish_gif_def Let_def split: sum.splits)


lemma case_prod_sum:
  "(case p of (Inl a, w) \<Rightarrow> f a w | (Inr b, w) \<Rightarrow> g b w) =
   (case fst p of Inl a \<Rightarrow> f a (snd p) | Inr b \<Rightarrow> g b (snd p))"
  by (simp split: prod.splits sum.splits)



lemma world_at_fetch_fields [simp]:
  "files (world_at_fetch msg event_id w) = files w"
  "sub_connected (world_at_fetch msg event_id w) = sub_connected w"
  "trace (world_at_fetch msg event_id w) =
     trace w @
     [Print (''message received   '' @ event_id @ '' topic '' @ topic msg @
             '' retained  '' @ bool_str (retain msg)),
      Log Info ''Getting event video for camera %s from base directory %s with event prefix %s'']"
  by (simp_all add: world_at_fetch_def)


lemma on_message_fst: "fst (on_message cfg e msg w) = Inr ()"
  by (simp add: on_message_def case_prod_sum split: sum.splits)

lemma on_message_snd:
  "snd (on_message cfg e msg w) =
     (case fst (on_message_try cfg e msg w) of
        Inl err \<Rightarrow> disconnect cfg e (logging Error ''on message exception''
                      (snd (on_message_try cfg e msg w)))
      | Inr u \<Rightarrow> snd (on_message_try cfg e msg w))"
  by (simp add: on_message_def case_prod_sum split: sum.splits)

lemma new_events_append [simp]: "trace w' = trace w @ evs \<Longrightarrow> new_events w w' = evs"
  by (simp add: new_events_def)

section \<open>Event processing\<close>



lemma ex_source_video_path:
  "source_video_path ''/zm'' (today ex_env) ''cam1-'' ''123'' = ''/zm/2024-03-07/cam1-123.mp4''"
  by (simp add: source_video_path_def date_str_def ex_env_def zfill_def str_nat.simps
      digit_char_def)

lemma ex_env_fs:
  "same_file ex_env a b = False"
  "open_write ex_env p = None"
  "transfer_breaks ex_env a b = None"
  by (simp_all add: ex_env_def)



lemma disconnect_events_filters [simp]:
  "filter is_disconnect (disconnect_events e) = [Client_disconnect]"
  "filter is_publish (disconnect_events e) = []"
  "filter is_copyfile (disconnect_events e) = []"
  "filter is_run (disconnect_events e) = []"
  by (simp_all add: disconnect_events_def split: option.splits)






lemma on_message_try_no_camera:
  "payload msg = Some event_id \<Longrightarrow>
   find (\<lambda>x. cam_id x = replace (mqtt_base_events_topic cfg @ ''/'') [] (topic msg))
     (zoneminder_cameras cfg) = None \<Longrightarrow>
   on_message_try cfg e msg w =
     (Inl TypeError,
      emit (Print (''message received   '' @ event_id @ '' topic '' @ topic msg @
                   '' retained  '' @ bool_str (retain msg))) w)"
  by (simp add: on_message_try_def Let_def)

text \<open>
  C6. A notification whose payload decodes and whose derived camera identifier matches no
  configured profile: the lookup result is subscripted and raises \<open>TypeError\<close>; no file is
  copied, no process is run, nothing is published; the handler of \<open>on_message\<close> logs the
  error and calls \<open>disconnect\<close> once, and \<open>on_message\<close> returns normally.
\<close>

theorem on_message_unknown_camera:
  assumes pl: "payload msg = Some event_id"
    and cam: "find (\<lambda>x. cam_id x = replace (mqtt_base_events_topic cfg @ ''/'') [] (topic msg))
                (zoneminder_cameras cfg) = None"
  shows "fst (on_message_try cfg e msg w) = Inl TypeError \<and>
         fst (on_message cfg e msg w) = Inr () \<and>
         new_events w (snd (on_message cfg e msg w)) =
           Print (''message received   '' @ event_id @ '' topic '' @ topic msg @
                  '' retained  '' @ bool_str (retain msg)) #
           Log Error ''on message exception'' # disconnect_events e \<and>
         filter (\<lambda>ev. is_copyfile ev \<or> is_run ev \<or> is_publish ev)
           (new_events w (snd (on_message cfg e msg w))) = [] \<and>
         filter is_disconnect (new_events w (snd (on_message cfg e msg w))) = [Client_disconnect]"
  by (simp add: on_message_fst on_message_snd on_message_try_no_camera [OF pl cam] new_events_def
      disconnect_events_def split: option.splits)


lemma ex_find_unknown:
  "find (\<lambda>x. cam_id x = replace (mqtt_base_events_topic ex_cfg @ ''/'') [] (topic ex_msg_unknown))
     (zoneminder_cameras ex_cfg) = None"
  by (simp add: ex_cfg_def ex_msg_unknown_def ex_cam_def replace.simps)

theorem on_message_unknown_camera_witness:
  "payload ex_msg_unknown = Some ''123'' \<and>
   fst (on_message_try ex_cfg ex_env ex_msg_unknown ex_world) = Inl TypeError \<and>
   fst (on_message ex_cfg ex_env ex_msg_unknown ex_world) = Inr () \<and>
   new_events ex_world (snd (on_message ex_cfg ex_env ex_msg_unknown ex_world)) =
     [Print ''message received   123 topic zm/events/cam9 retained  False'',
      Log Error ''on message exception'',
      Log Info ''disconnecting from mqtt_server %s mqtt_port %i'', Client_disconnect]"
proof -
  have pl: "payload ex_msg_unknown = Some ''123''"
    by (simp add: ex_msg_unknown_def)
  show ?thesis
    using on_message_unknown_camera [OF pl ex_find_unknown, of ex_env ex_world] pl
    by (simp add: disconnect_events_def ex_env_def ex_msg_unknown_def bool_str_def)
qed



section \<open>The video fetch\<close>

text \<open>
  C3, as stated, fails for a source that cannot be read once it is open. The copy opens the
  source, then creates the working copy, then transfers; a transfer that breaks after one
  byte raises, and the working copy, which was not there before, is there with that byte.
\<close>

theorem zm_get_video_read_error_leaves_copy:
  "files ex_world ''/zm/2024-03-07/cam1-123.mp4'' = Some (File True ''MP4'') \<and>
   files ex_world ''/work/123.mp4'' = None \<and>
   fst (zm_get_video ex_env_read_error ''/work'' ''/zm'' ''cam1-'' ''123'' ex_world) = Inl OSError \<and>
   files (snd (zm_get_video ex_env_read_error ''/work'' ''/zm'' ''cam1-'' ''123'' ex_world))
     ''/work/123.mp4'' = Some (File True ''M'')"
proof -
  have p: "source_video_path ''/zm'' (today ex_env_read_error) ''cam1-'' ''123'' =
      ''/zm/2024-03-07/cam1-123.mp4''"
    using ex_source_video_path by (simp add: ex_env_read_error_def)
  have e: "\<not> same_file ex_env_read_error ''/zm/2024-03-07/cam1-123.mp4'' ''/work/123.mp4''"
    "open_write ex_env_read_error ''/work/123.mp4'' = None"
    "transfer_breaks ex_env_read_error ''/zm/2024-03-07/cam1-123.mp4'' ''/work/123.mp4'' = Some 1"
    by (simp_all add: ex_env_read_error_def ex_env_fs)
  show ?thesis
    by (simp add: zm_get_video_fst zm_get_video_files copyfile_files p e outfile_video_path_def
        ex_world_def init_world_def)
qed

text \<open>
  C3, amended. For every event identifier \<open>ev\<close> and recording prefix \<open>pr\<close>, \<open>zm_get_video\<close> makes
  one copy call, from \<open>sdir/<date>/<pr><ev>.mp4\<close> to \<open>wdir/<ev>.mp4\<close>, where the date is the
  one the environment gives at the call, written as four digits of year, two of month and two
  of day with dashes between. The call raises and leaves every file as it was when the source
  does not exist, when it cannot be opened for reading, when source and destination are one
  file, and when the destination cannot be opened for writing. When both files are open and
  the transfer breaks, the call raises too, and the working copy has been created or emptied
  and holds the bytes transferred so far. Otherwise the call returns the path of the working
  copy, which holds the content of the source, and no other file has changed.
\<close>

theorem zm_get_video_contract:
  assumes src: "src = sdir @ ''/'' @ date_str (today e) @ ''/'' @ pr @ ev @ ''.mp4''"
    and dst: "dst = wdir @ ''/'' @ ev @ ''.mp4''"
  shows "filter is_copyfile (new_events w (snd (zm_get_video e wdir sdir pr ev w))) =
           [Copyfile src dst] \<and>
         (year (today e) < 10000 \<and> month (today e) < 100 \<and> day (today e) < 100 \<longrightarrow>
            date_str (today e) =
              [digit_char (year (today e) div 1000), digit_char (year (today e) div 100 mod 10),
               digit_char (year (today e) div 10 mod 10), digit_char (year (today e) mod 10),
               CHR ''-'',
               digit_char (month (today e) div 10), digit_char (month (today e) mod 10),
               CHR ''-'',
               digit_char (day (today e) div 10), digit_char (day (today e) mod 10)]) \<and>
         (files w src = None \<longrightarrow>
            fst (zm_get_video e wdir sdir pr ev w) = Inl FileNotFoundError \<and>
            files (snd (zm_get_video e wdir sdir pr ev w)) = files w) \<and>
         (\<forall>f. files w src = Some f \<and> (src = dst \<or> same_file e src dst) \<longrightarrow>
            fst (zm_get_video e wdir sdir pr ev w) = Inl SameFileError \<and>
            files (snd (zm_get_video e wdir sdir pr ev w)) = files w) \<and>
         (\<forall>f. files w src = Some f \<and> \<not> readable f \<longrightarrow>
            isl (fst (zm_get_video e wdir sdir pr ev w)) \<and>
            files (snd (zm_get_video e wdir sdir pr ev w)) = files w) \<and>
         (\<forall>f err. files w src = Some f \<and> readable f \<and> src \<noteq> dst \<and> \<not> same_file e src dst \<and>
                  open_write e dst = Some err \<longrightarrow>
            fst (zm_get_video e wdir sdir pr ev w) = Inl err \<and>
            files (snd (zm_get_video e wdir sdir pr ev w)) = files w) \<and>
         (\<forall>f n. files w src = Some f \<and> readable f \<and> src \<noteq> dst \<and> \<not> same_file e src dst \<and>
                open_write e dst = None \<and> transfer_breaks e src dst = Some n \<longrightarrow>
            fst (zm_get_video e wdir sdir pr ev w) = Inl OSError \<and>
            files (snd (zm_get_video e wdir sdir pr ev w)) =
              (files w)(dst \<mapsto>
                 File (case files w dst of None \<Rightarrow> True | Some g \<Rightarrow> readable g)
                      (take n (content f)))) \<and>
         (\<forall>f. files w src = Some f \<and> readable f \<and> src \<noteq> dst \<and> \<not> same_file e src dst \<and>
              open_write e dst = None \<and> transfer_breaks e src dst = None \<longrightarrow>
            fst (zm_get_video e wdir sdir pr ev w) = Inr dst \<and>
            files (snd (zm_get_video e wdir sdir pr ev w)) =
              (files w)(dst \<mapsto>
                 File (case files w dst of None \<Rightarrow> True | Some g \<Rightarrow> readable g) (content f)))"
proof -
  let ?z = "zm_get_video e wdir sdir pr ev w"
  have s: "source_video_path sdir (today e) pr ev = src"
    by (simp add: src source_video_path_def)
  have d: "outfile_video_path wdir ev = dst"
    by (simp add: dst outfile_video_path_def)
  have ev: "filter is_copyfile (new_events w (snd ?z)) = [Copyfile src dst]"
    by (simp add: new_events_def zm_get_video_trace s d split: sum.splits)
  have date: "year (today e) < 10000 \<and> month (today e) < 100 \<and> day (today e) < 100 \<longrightarrow>
      date_str (today e) =
        [digit_char (year (today e) div 1000), digit_char (year (today e) div 100 mod 10),
         digit_char (year (today e) div 10 mod 10), digit_char (year (today e) mod 10),
         CHR ''-'',
         digit_char (month (today e) div 10), digit_char (month (today e) mod 10),
         CHR ''-'',
         digit_char (day (today e) div 10), digit_char (day (today e) mod 10)]"
    using date_str_digits [of "today e"] by blast
  have missing: "files w src = None \<Longrightarrow>
      fst ?z = Inl FileNotFoundError \<and> files (snd ?z) = files w"
    by (simp add: zm_get_video_files copyfile_files zm_get_video_fst s d)
  have same: "files w src = Some f \<Longrightarrow> src = dst \<or> same_file e src dst \<Longrightarrow>
      fst ?z = Inl SameFileError \<and> files (snd ?z) = files w" for f
    by (auto simp add: zm_get_video_files copyfile_files zm_get_video_fst s d)
  have unreadable: "files w src = Some f \<Longrightarrow> \<not> readable f \<Longrightarrow>
      isl (fst ?z) \<and> files (snd ?z) = files w" for f
    by (simp add: zm_get_video_files copyfile_files zm_get_video_fst s d)
  have nowrite: "files w src = Some f \<Longrightarrow> readable f \<Longrightarrow> src \<noteq> dst \<Longrightarrow>
      \<not> same_file e src dst \<Longrightarrow> open_write e dst = Some err \<Longrightarrow>
      fst ?z = Inl err \<and> files (snd ?z) = files w" for f err
    by (simp add: zm_get_video_files copyfile_files zm_get_video_fst s d)
  have broken: "files w src = Some f \<Longrightarrow> readable f \<Longrightarrow> src \<noteq> dst \<Longrightarrow>
      \<not> same_file e src dst \<Longrightarrow> open_write e dst = None \<Longrightarrow>
      transfer_breaks e src dst = Some n \<Longrightarrow>
      fst ?z = Inl OSError \<and>
      files (snd ?z) =
        (files w)(dst \<mapsto>
           File (case files w dst of None \<Rightarrow> True | Some g \<Rightarrow> readable g)
                (take n (content f)))" for f n
    by (simp add: zm_get_video_files copyfile_files zm_get_video_fst s d)
  have ok: "files w src = Some f \<Longrightarrow> readable f \<Longrightarrow> src \<noteq> dst \<Longrightarrow>
      \<not> same_file e src dst \<Longrightarrow> open_write e dst = None \<Longrightarrow>
      transfer_breaks e src dst = None \<Longrightarrow>
      fst ?z = Inr dst \<and>
      files (snd ?z) =
        (files w)(dst \<mapsto>
           File (case files w dst of None \<Rightarrow> True | Some g \<Rightarrow> readable g) (content f))" for f
    by (simp add: zm_get_video_files copyfile_files zm_get_video_fst s d)
  show ?thesis
    using ev date missing same unreadable nowrite broken ok by blast
qed

theorem zm_get_video_contract_witness:
  "date_str (today ex_env) = ''2024-03-07'' \<and>
   files ex_world ''/zm/2024-03-07/cam1-123.mp4'' = Some (File True ''MP4'') \<and>
   fst (zm_get_video ex_env ''/work'' ''/zm'' ''cam1-'' ''123'' ex_world) = Inr ''/work/123.mp4'' \<and>
   files (snd (zm_get_video ex_env ''/work'' ''/zm'' ''cam1-'' ''123'' ex_world)) ''/work/123.mp4'' =
     Some (File True ''MP4'') \<and>
   files (init_world Map.empty) ''/zm/2024-03-07/cam1-123.mp4'' = None \<and>
   fst (zm_get_video ex_env ''/work'' ''/zm'' ''cam1-'' ''123'' (init_world Map.empty)) =
     Inl FileNotFoundError \<and>
   files (snd (zm_get_video ex_env ''/work'' ''/zm'' ''cam1-'' ''123'' (init_world Map.empty)))
     ''/work/123.mp4'' = None \<and>
   open_write ex_env_no_folder ''/work/123.mp4'' = Some FileNotFoundError \<and>
   fst (zm_get_video ex_env_no_folder ''/work'' ''/zm'' ''cam1-'' ''123'' ex_world) =
     Inl FileNotFoundError \<and>
   files (snd (zm_get_video ex_env_no_folder ''/work'' ''/zm'' ''cam1-'' ''123'' ex_world))
     ''/work/123.mp4'' = None \<and>
   transfer_breaks ex_env_read_error ''/zm/2024-03-07/cam1-123.mp4'' ''/work/123.mp4'' = Some 1 \<and>
   fst (zm_get_video ex_env_read_error ''/work'' ''/zm'' ''cam1-'' ''123'' ex_world) = Inl OSError"
proof -
  have t: "today ex_env_no_folder = today ex_env" "today ex_env_read_error = today ex_env"
    by (simp_all add: ex_env_no_folder_def ex_env_read_error_def)
  have r: "year (today ex_env) < 10000 \<and> month (today ex_env) < 100 \<and> day (today ex_env) < 100"
    by (simp add: ex_env_def)
  have dt: "date_str (today ex_env) = ''2024-03-07''"
    using date_str_digits [of "today ex_env"] by (simp add: ex_env_def digit_char_def)
  have src: "''/zm/2024-03-07/cam1-123.mp4'' =
      ''/zm'' @ ''/'' @ date_str (today ex_env) @ ''/'' @ ''cam1-'' @ ''123'' @ ''.mp4''"
    by (simp add: dt)
  have src_nf: "''/zm/2024-03-07/cam1-123.mp4'' =
      ''/zm'' @ ''/'' @ date_str (today ex_env_no_folder) @ ''/'' @ ''cam1-'' @ ''123'' @ ''.mp4''"
    by (simp add: dt t)
  have src_re: "''/zm/2024-03-07/cam1-123.mp4'' =
      ''/zm'' @ ''/'' @ date_str (today ex_env_read_error) @ ''/'' @ ''cam1-'' @ ''123'' @ ''.mp4''"
    by (simp add: dt t)
  have dst: "''/work/123.mp4'' = ''/work'' @ ''/'' @ ''123'' @ ''.mp4''"
    by simp
  have f: "files ex_world ''/zm/2024-03-07/cam1-123.mp4'' = Some (File True ''MP4'')"
    by (simp add: ex_world_def init_world_def)
  have n: "files (init_world Map.empty) ''/zm/2024-03-07/cam1-123.mp4'' = None"
    by (simp add: init_world_def)
  have e0: "\<not> same_file ex_env ''/zm/2024-03-07/cam1-123.mp4'' ''/work/123.mp4''"
    "open_write ex_env ''/work/123.mp4'' = None"
    "transfer_breaks ex_env ''/zm/2024-03-07/cam1-123.mp4'' ''/work/123.mp4'' = None"
    by (simp_all add: ex_env_fs)
  have e1: "\<not> same_file ex_env_no_folder ''/zm/2024-03-07/cam1-123.mp4'' ''/work/123.mp4''"
    "open_write ex_env_no_folder ''/work/123.mp4'' = Some FileNotFoundError"
    by (simp_all add: ex_env_no_folder_def ex_env_fs)
  have e2: "\<not> same_file ex_env_read_error ''/zm/2024-03-07/cam1-123.mp4'' ''/work/123.mp4''"
    "open_write ex_env_read_error ''/work/123.mp4'' = None"
    "transfer_breaks ex_env_read_error ''/zm/2024-03-07/cam1-123.mp4'' ''/work/123.mp4'' = Some 1"
    by (simp_all add: ex_env_read_error_def ex_env_fs)
  show ?thesis
    using zm_get_video_contract [OF src dst, of ex_world]
      zm_get_video_contract [OF src dst, of "init_world Map.empty"]
      zm_get_video_contract [OF src_nf dst, of ex_world]
      zm_get_video_contract [OF src_re dst, of ex_world]
      dt f n e0 e1 e2
    by (simp add: ex_world_def init_world_def)
qed

section \<open>The conversion\<close>




section \<open>The connection callbacks\<close>

lemma subscribe_cameras_trace:
  "trace (snd (subscribe_cameras cfg e cams w)) =
     trace w @ concat (map (subscribe_events cfg) (attempted cfg e cams))"
  by (induction cams arbitrary: w)
     (simp_all add: Let_def events_channel_def subscribe_events_def split: sum.splits)

lemma subscribe_cameras_unchanged [simp]:
  "files (snd (subscribe_cameras cfg e cams w)) = files w"
  "sub_connected (snd (subscribe_cameras cfg e cams w)) = sub_connected w"
  by (induction cams arbitrary: w) (simp_all add: Let_def split: sum.splits)

lemma subscribe_cameras_isl:
  "isl (fst (subscribe_cameras cfg e cams w)) =
     (\<exists>cam \<in> set cams. isl (subscribe e (events_channel cfg cam)))"
  by (induction cams arbitrary: w)
     (auto simp add: Let_def events_channel_def split: sum.splits)

lemma attempted_all:
  "\<forall>cam \<in> set cams. \<not> isl (subscribe e (events_channel cfg cam)) \<Longrightarrow>
   attempted cfg e cams = cams"
  by (induction cams) simp_all

lemma subscribe_events_filters [simp]:
  "filter is_subscribe (concat (map (subscribe_events cfg) cams)) =
     map (\<lambda>cam. Subscribe (events_channel cfg cam)) cams"
  "filter is_disconnect (concat (map (subscribe_events cfg) cams)) = []"
  "filter is_flag (concat (map (subscribe_events cfg) cams)) = []"
  by (induction cams) (simp_all add: subscribe_events_def)

lemma disconnect_events_more_filters [simp]:
  "filter is_subscribe (disconnect_events e) = []"
  "filter is_flag (disconnect_events e) = []"
  by (simp_all add: disconnect_events_def split: option.splits)

lemma on_connect_eq:
  "on_connect cfg e rc w =
     (let s = subscribe_cameras cfg e (zoneminder_cameras cfg)
                (logging Info ''connected to mqtt_server %s  mqtt_port %i'' w)
      in if isl (fst s)
         then disconnect cfg e (logging Error ''on_connect exception'' (snd s))
         else set_sub_connected True (snd s))"
  by (simp add: on_connect_def case_prod_sum Let_def split: sum.splits)

text \<open>
  C5, as stated, fails on the order: \<open>on_connect\<close> sets the flag after the loop over the
  cameras, so with the flag cleared at the callback the subscribe calls are made before the
  state is Connected.
\<close>

theorem on_connect_subscribes_first_counterexample:
  "\<not> subscribes_after_connected (sub_connected ex_world)
        (new_events ex_world (on_connect ex_cfg ex_env 0 ex_world))"
  by (simp add: on_connect_eq subscribe_cameras_isl subscribe_cameras_trace new_events_def Let_def
      ex_cfg_def ex_env_def ex_world_def init_world_def subscribe_events_def events_channel_def)

text \<open>
  C5, amended. \<open>on_connect\<close> subscribes first and marks the connection afterwards. When no
  subscribe call raises, the callback adds to the trace its log line, then for every
  configured camera, in order, one subscribe call on \<open>mqtt_base_events_topic/cam_id\<close> (so
  exactly N calls for N cameras), and last the write of \<open>True\<close> to the flag; it does not
  disconnect. When a subscribe call raises, the cameras after it are not subscribed, the flag
  is not written, an error is logged and \<open>disconnect\<close> is called once.
\<close>

theorem on_connect_subscribes_then_sets_flag:
  "((\<forall>cam \<in> set (zoneminder_cameras cfg). \<not> isl (subscribe e (events_channel cfg cam))) \<longrightarrow>
      new_events w (on_connect cfg e rc w) =
        Log Info ''connected to mqtt_server %s  mqtt_port %i'' #
        concat (map (subscribe_events cfg) (zoneminder_cameras cfg)) @ [Flag True] \<and>
      filter is_subscribe (new_events w (on_connect cfg e rc w)) =
        map (\<lambda>cam. Subscribe (events_channel cfg cam)) (zoneminder_cameras cfg) \<and>
      filter is_disconnect (new_events w (on_connect cfg e rc w)) = [] \<and>
      sub_connected (on_connect cfg e rc w)) \<and>
   ((\<exists>cam \<in> set (zoneminder_cameras cfg). isl (subscribe e (events_channel cfg cam))) \<longrightarrow>
      new_events w (on_connect cfg e rc w) =
        Log Info ''connected to mqtt_server %s  mqtt_port %i'' #
        concat (map (subscribe_events cfg) (attempted cfg e (zoneminder_cameras cfg))) @
        Log Error ''on_connect exception'' # disconnect_events e \<and>
      filter is_disconnect (new_events w (on_connect cfg e rc w)) = [Client_disconnect] \<and>
      filter is_flag (new_events w (on_connect cfg e rc w)) = [] \<and>
      sub_connected (on_connect cfg e rc w) = sub_connected w)"
proof -
  have ok: "\<forall>cam \<in> set (zoneminder_cameras cfg). \<not> isl (subscribe e (events_channel cfg cam)) \<Longrightarrow>
      new_events w (on_connect cfg e rc w) =
        Log Info ''connected to mqtt_server %s  mqtt_port %i'' #
        concat (map (subscribe_events cfg) (zoneminder_cameras cfg)) @ [Flag True] \<and>
      sub_connected (on_connect cfg e rc w)"
    by (simp add: on_connect_eq subscribe_cameras_isl subscribe_cameras_trace attempted_all
        new_events_def Let_def)
  have bad: "\<exists>cam \<in> set (zoneminder_cameras cfg). isl (subscribe e (events_channel cfg cam)) \<Longrightarrow>
      new_events w (on_connect cfg e rc w) =
        Log Info ''connected to mqtt_server %s  mqtt_port %i'' #
        concat (map (subscribe_events cfg) (attempted cfg e (zoneminder_cameras cfg))) @
        Log Error ''on_connect exception'' # disconnect_events e \<and>
      sub_connected (on_connect cfg e rc w) = sub_connected w"
    by (simp add: on_connect_eq subscribe_cameras_isl subscribe_cameras_trace
        new_events_def Let_def)
  show ?thesis
  proof (intro conjI impI)
    assume a: "\<forall>cam \<in> set (zoneminder_cameras cfg). \<not> isl (subscribe e (events_channel cfg cam))"
    show "new_events w (on_connect cfg e rc w) =
        Log Info ''connected to mqtt_server %s  mqtt_port %i'' #
        concat (map (subscribe_events cfg) (zoneminder_cameras cfg)) @ [Flag True]"
      using ok [OF a] by simp
    show "filter is_subscribe (new_events w (on_connect cfg e rc w)) =
        map (\<lambda>cam. Subscribe (events_channel cfg cam)) (zoneminder_cameras cfg)"
      using ok [OF a] by simp
    show "filter is_disconnect (new_events w (on_connect cfg e rc w)) = []"
      using ok [OF a] by simp
    show "sub_connected (on_connect cfg e rc w)"
      using ok [OF a] by simp
  next
    assume b: "\<exists>cam \<in> set (zoneminder_cameras cfg). isl (subscribe e (events_channel cfg cam))"
    show "new_events w (on_connect cfg e rc w) =
        Log Info ''connected to mqtt_server %s  mqtt_port %i'' #
        concat (map (subscribe_events cfg) (attempted cfg e (zoneminder_cameras cfg))) @
        Log Error ''on_connect exception'' # disconnect_events e"
      using bad [OF b] by simp
    show "filter is_disconnect (new_events w (on_connect cfg e rc w)) = [Client_disconnect]"
      using bad [OF b] by simp
    show "filter is_flag (new_events w (on_connect cfg e rc w)) = []"
      using bad [OF b] by simp
    show "sub_connected (on_connect cfg e rc w) = sub_connected w"
      using bad [OF b] by simp
  qed
qed

theorem on_connect_subscribes_then_sets_flag_witness:
  "new_events ex_world (on_connect ex_cfg_two ex_env 0 ex_world) =
     [Log Info ''connected to mqtt_server %s  mqtt_port %i'',
      Log Info ''subscribing topic %s for camera %s'', Subscribe ''zm/events/cam1'',
      Log Info ''subscribing topic %s for camera %s'', Subscribe ''zm/events/cam2'',
      Flag True] \<and>
   sub_connected (on_connect ex_cfg_two ex_env 0 ex_world) \<and>
   new_events ex_world (on_connect ex_cfg_two ex_env_sub_fails 0 ex_world) =
     [Log Info ''connected to mqtt_server %s  mqtt_port %i'',
      Log Info ''subscribing topic %s for camera %s'', Subscribe ''zm/events/cam1'',
      Log Error ''on_connect exception'',
      Log Info ''disconnecting from mqtt_server %s mqtt_port %i'', Client_disconnect] \<and>
   \<not> sub_connected (on_connect ex_cfg_two ex_env_sub_fails 0 ex_world)"
proof -
  have a: "\<forall>cam \<in> set (zoneminder_cameras ex_cfg_two).
      \<not> isl (subscribe ex_env (events_channel ex_cfg_two cam))"
    by (simp add: ex_env_def)
  have b: "\<exists>cam \<in> set (zoneminder_cameras ex_cfg_two).
      isl (subscribe ex_env_sub_fails (events_channel ex_cfg_two cam))"
    by (simp add: ex_env_sub_fails_def ex_cfg_two_def ex_cfg_def ex_cam_def events_channel_def)
  show ?thesis
    using on_connect_subscribes_then_sets_flag [of ex_cfg_two ex_env ex_world 0] a
      on_connect_subscribes_then_sets_flag [of ex_cfg_two ex_env_sub_fails ex_world 0] b
    by (simp add: ex_cfg_two_def ex_cfg_def ex_cam_def events_channel_def subscribe_events_def
        disconnect_events_def ex_env_sub_fails_def ex_env_def ex_world_def init_world_def)
qed

text \<open>
  C10. \<open>on_subscribe\<close> and \<open>on_publish\<close> set the flag whatever it was. After \<open>on_disconnect\<close>
  has cleared it, an acknowledgement sets it again, and the next round of the main loop then
  only sleeps; without the acknowledgement the round calls \<open>connect\<close>.
\<close>

theorem ack_marks_connected:
  "sub_connected (on_subscribe mid w) \<and>
   sub_connected (on_publish mid w) \<and>
   \<not> sub_connected (on_disconnect rc w) \<and>
   sub_connected (on_subscribe mid (on_disconnect rc w)) \<and>
   sub_connected (on_publish mid (on_disconnect rc w)) \<and>
   new_events (on_subscribe mid w) (main_loop_round cfg e (on_subscribe mid w)) = [Sleep 10] \<and>
   new_events (on_publish mid w) (main_loop_round cfg e (on_publish mid w)) = [Sleep 10] \<and>
   filter is_connect
     (new_events (on_disconnect rc w) (main_loop_round cfg e (on_disconnect rc w))) =
     [Connect_async (mqtt_server cfg) (mqtt_port cfg)]"
  by (simp add: on_subscribe_def on_publish_def on_disconnect_def main_loop_round_def
      connect_def new_events_def Let_def disconnect_events_def split: option.splits)

section \<open>The publication\<close>

text \<open>
  C9, as stated, fails where the client reports the failure of a send by its return code:
  \<open>publish_gif\<close> logs the code and returns \<open>True\<close> all the same.
\<close>

theorem publish_gif_ignores_return_code:
  "publish ex_env_no_conn (gifs_channel ex_cfg ''cam1'') ''123.gif'' = Inr 4 \<and>
   \<not> send_succeeded (publish ex_env_no_conn (gifs_channel ex_cfg ''cam1'') ''123.gif'') \<and>
   fst (publish_gif ex_cfg ex_env_no_conn ''cam1'' ''123.gif'' ex_world) = Some True \<and>
   truthy (fst (publish_gif ex_cfg ex_env_no_conn ''cam1'' ''123.gif'' ex_world))"
  by (simp add: publish_gif_fst ex_env_no_conn_def send_succeeded_def truthy_def)

text \<open>
  C9, amended. For every camera identifier and artifact filename, \<open>publish_gif\<close> makes one
  publish call, on \<open>mqtt_base_gifs_topic/camera_topic\<close> with the filename as payload. It returns
  \<open>True\<close> exactly when that call returns, whatever return code it hands back, and falls
  through to \<open>None\<close>, which its caller tests as false, exactly when the call raises. What it
  adds to the trace is the publish call and then, when the call returned, the one log line
  for the return code at level info; when the call raised, the log line \<open>publish exception\<close>
  at level error followed by one call of \<open>disconnect\<close>, and nothing else.
\<close>

theorem publish_gif_reports_send:
  "filter is_publish (new_events w (snd (publish_gif cfg e camera_topic gif w))) =
     [Publish (gifs_channel cfg camera_topic) gif] \<and>
   (fst (publish_gif cfg e camera_topic gif w) = Some True) =
     (\<exists>retcode. publish e (gifs_channel cfg camera_topic) gif = Inr retcode) \<and>
   (fst (publish_gif cfg e camera_topic gif w) = None) =
     (\<exists>err. publish e (gifs_channel cfg camera_topic) gif = Inl err) \<and>
   truthy (fst (publish_gif cfg e camera_topic gif w)) =
     (\<not> isl (publish e (gifs_channel cfg camera_topic) gif)) \<and>
   length (filter is_disconnect (new_events w (snd (publish_gif cfg e camera_topic gif w)))) =
     (if isl (publish e (gifs_channel cfg camera_topic) gif) then 1 else 0) \<and>
   new_events w (snd (publish_gif cfg e camera_topic gif w)) =
     Publish (gifs_channel cfg camera_topic) gif #
     (case publish e (gifs_channel cfg camera_topic) gif of
        Inl err \<Rightarrow> Log Error ''publish exception'' # disconnect_events e
      | Inr retcode \<Rightarrow> [Log Info ''mqtt_client.publish retcode %s'']) \<and>
   list_ex is_error_log (new_events w (snd (publish_gif cfg e camera_topic gif w))) =
     isl (publish e (gifs_channel cfg camera_topic) gif) \<and>
   files (snd (publish_gif cfg e camera_topic gif w)) = files w \<and>
   sub_connected (snd (publish_gif cfg e camera_topic gif w)) = sub_connected w"
  by (cases "publish e (gifs_channel cfg camera_topic) gif")
     (simp_all add: publish_gif_fst publish_gif_trace new_events_def gifs_channel_def truthy_def
        disconnect_events_def split: option.splits)

section \<open>The camera identifier\<close>

text \<open>
  Where the pattern \<open>base/\<close> does not occur in the identifier, replacing every occurrence in
  the subscribed channel \<open>base/ident\<close> gives the identifier back, as stripping the prefix does.
\<close>

lemma replace_no_occurrence:
  "old \<noteq> [] \<Longrightarrow> \<not> occurs_in old s \<Longrightarrow> replace old new s = s"
proof (induction s)
  case Nil
  then show ?case by (simp add: replace.simps)
next
  case (Cons c cs)
  then show ?case by (simp add: replace.simps [of old new "c # cs"])
qed

lemma replace_strips_leading:
  assumes "\<not> occurs_in (base @ ''/'') ident"
  shows "replace (base @ ''/'') [] ((base @ ''/'') @ ident) = ident"
    and "replace (base @ ''/'') [] ((base @ ''/'') @ ident) = strip_leading (base @ ''/'') ((base @ ''/'') @ ident)"
proof -
  have "replace (base @ ''/'') [] ((base @ ''/'') @ ident) = replace (base @ ''/'') [] ident"
    by (subst replace.simps) simp
  then show a: "replace (base @ ''/'') [] ((base @ ''/'') @ ident) = ident"
    using assms by (simp add: replace_no_occurrence)
  show "replace (base @ ''/'') [] ((base @ ''/'') @ ident) = strip_leading (base @ ''/'') ((base @ ''/'') @ ident)"
    using a by (simp add: strip_leading_def)
qed

text \<open>
  C8 fails on the code. With base topic \<open>cam\<close> and the configured camera \<open>dashcam/front\<close>,
  \<open>on_connect\<close> subscribes to \<open>cam/dashcam/front\<close>. For a message on that channel \<open>on_message\<close>
  removes both occurrences of \<open>cam/\<close> and derives \<open>dashfront\<close>, where stripping the leading
  prefix once gives \<open>dashcam/front\<close>; the derived identifier matches no camera.
\<close>

theorem camera_id_replace_removes_every_occurrence:
  "events_channel ex_cfg_dash ex_cam_dash = ''cam/dashcam/front'' \<and>
   replace (mqtt_base_events_topic ex_cfg_dash @ ''/'') [] ''cam/dashcam/front'' = ''dashfront'' \<and>
   strip_leading (mqtt_base_events_topic ex_cfg_dash @ ''/'') ''cam/dashcam/front'' =
     ''dashcam/front'' \<and>
   find (\<lambda>x. cam_id x = replace (mqtt_base_events_topic ex_cfg_dash @ ''/'') [] ''cam/dashcam/front'')
     (zoneminder_cameras ex_cfg_dash) = None"
  by (simp add: events_channel_def ex_cfg_dash_def ex_cam_dash_def ex_cfg_def ex_cam_def
      strip_leading_def replace.simps)

section \<open>The argument vector of the external tool\<close>

text \<open>The vector for the profile of the specification's example.\<close>

lemma ffmpeg_args_example:
  "ffmpeg_args 480 2 8 ''/work/123.mp4'' ''/work/123.gif'' =
     [''ffmpeg'', ''-stats'', ''-i'', ''/work/123.mp4'', ''-vf'',
      ''fps=15,scale=480:-1:flags=lanczos'', ''-ss'', ''00:00:02'', ''-t'', ''8'', ''-y'',
      ''/work/123.gif'']"
  by (simp add: ffmpeg_args_def zfill_def str_int_def str_nat.simps digit_char_def)

text \<open>For an offset from 0 to 59 seconds the seek argument is the offset as \<open>HH:MM:SS\<close>.\<close>

lemma zfill_zero: "zfill 2 (str_nat 0) = ''00''"
  by (simp add: zfill_def str_nat.simps digit_char_def)

lemma seek_argument_in_range:
  assumes "0 \<le> skip" and "skip < 60"
  shows "ffmpeg_args scl skip maxlen i out ! 7 = hh_mm_ss (nat skip)"
proof -
  have "nat skip div 3600 = 0" "nat skip div 60 mod 60 = 0" "nat skip mod 60 = nat skip"
    using assms by simp_all
  then show ?thesis
    using assms by (simp add: ffmpeg_args_def hh_mm_ss_def zfill_zero two_digits_def str_int_def)
qed

text \<open>
  C4 fails on the code for an offset of a minute or more: the code writes the hours and the
  minutes as \<open>00\<close> and appends the number of seconds, so 100 seconds become \<open>00:00:100\<close> and
  75 seconds \<open>00:00:75\<close>, where \<open>HH:MM:SS\<close> is \<open>00:01:40\<close> and \<open>00:01:15\<close>.
\<close>

theorem seek_argument_beyond_a_minute:
  "ffmpeg_args 480 100 8 ''/work/123.mp4'' ''/work/123.gif'' ! 7 = ''00:00:100'' \<and>
   hh_mm_ss 100 = ''00:01:40'' \<and>
   ffmpeg_args 480 75 8 ''/work/123.mp4'' ''/work/123.gif'' ! 7 = ''00:00:75'' \<and>
   hh_mm_ss 75 = ''00:01:15''"
  by (simp add: ffmpeg_args_def hh_mm_ss_def two_digits_def zfill_def str_int_def str_nat.simps
      digit_char_def)

text \<open>
  The rest of the vector. Each of the three profile parameters decides exactly one argument,
  scale the filter at position 5, the offset the argument at position 7, the duration the one
  at position 9: two profiles give the same argument there exactly when they agree on the
  parameter, and every other position holds the same string for all profiles.
\<close>

lemma digit_val_digit_char: "d < 10 \<Longrightarrow> digit_val (digit_char d) = d"
  using digit_cases [of d] by (auto simp add: digit_val_def digit_char_def)

lemma parse_nat_snoc: "parse_nat (s @ [c]) = 10 * parse_nat s + digit_val c"
  by (simp add: parse_nat_def)

lemma parse_nat_str_nat: "parse_nat (str_nat n) = n"
proof (induction n rule: str_nat.induct)
  case (1 n)
  show ?case
  proof (cases "n < 10")
    case True
    then show ?thesis
      by (simp add: str_nat.simps [of n] parse_nat_def digit_val_digit_char)
  next
    case False
    then have "parse_nat (str_nat (n div 10)) = n div 10"
      using "1.IH" by simp
    then show ?thesis
      using False
      by (simp add: str_nat.simps [of n] parse_nat_snoc digit_val_digit_char)
  qed
qed

lemma str_nat_not_empty: "str_nat n \<noteq> []"
  by (simp add: str_nat.simps [of n])

lemma hd_str_nat_not_sign: "hd (str_nat n) \<noteq> CHR ''-'' \<and> hd (str_nat n) \<noteq> CHR ''+''"
proof (induction n rule: str_nat.induct)
  case (1 n)
  show ?case
  proof (cases "n < 10")
    case True
    then show ?thesis
      by (simp add: str_nat.simps [of n] digit_char_not_sign)
  next
    case False
    then show ?thesis
      using "1.IH" by (simp add: str_nat.simps [of n] str_nat_not_empty)
  qed
qed

lemma parse_int_str_int: "parse_int (str_int i) = i"
proof (cases "i < 0")
  case True
  then show ?thesis
    by (simp add: parse_int_def str_int_def parse_nat_str_nat)
next
  case False
  obtain c rest where s: "str_nat (nat i) = c # rest"
    using str_nat_not_empty [of "nat i"] by (cases "str_nat (nat i)") auto
  have "c \<noteq> CHR ''-''"
    using hd_str_nat_not_sign [of "nat i"] s by simp
  moreover have "parse_nat (c # rest) = nat i"
    using parse_nat_str_nat [of "nat i"] s by simp
  ultimately show ?thesis
    using False s by (simp add: parse_int_def str_int_def)
qed

lemma parse_nat_leading_zero: "parse_nat (CHR ''0'' # s) = parse_nat s"
  by (simp add: parse_nat_def digit_val_def)

lemma parse_int_zfill_str_int: "parse_int (zfill 2 (str_int i)) = i"
proof (cases "2 \<le> length (str_int i)")
  case True
  then show ?thesis
    by (simp add: zfill_def parse_int_str_int)
next
  case False
  show ?thesis
  proof (cases "i < 0")
    case True
    then have "2 \<le> length (str_int i)"
      using str_nat_not_empty [of "nat (- i)"]
      by (cases "str_nat (nat (- i))") (simp_all add: str_int_def)
    with False show ?thesis by simp
  next
    case nonneg: False
    obtain c rest where s: "str_nat (nat i) = c # rest"
      using str_nat_not_empty [of "nat i"] by (cases "str_nat (nat i)") auto
    have rest: "rest = []"
      using False nonneg s by (cases rest) (simp_all add: str_int_def)
    have c: "c \<noteq> CHR ''-''" "c \<noteq> CHR ''+''"
      using hd_str_nat_not_sign [of "nat i"] s by simp_all
    have p: "parse_nat [c] = nat i"
      using parse_nat_str_nat [of "nat i"] s rest by simp
    have "zfill 2 (str_int i) = [CHR ''0'', c]"
      using nonneg s rest c by (auto simp add: zfill_def str_int_def)
    then show ?thesis
      using p nonneg by (simp add: parse_int_def parse_nat_leading_zero)
  qed
qed

lemma str_int_inj: "str_int a = str_int b \<Longrightarrow> a = b"
  by (metis parse_int_str_int)

lemma zfill_str_int_inj: "zfill 2 (str_int a) = zfill 2 (str_int b) \<Longrightarrow> a = b"
  by (metis parse_int_zfill_str_int)

lemma ffmpeg_args_depend_on_profile:
  "(ffmpeg_args scl skip maxlen i out ! 5 = ffmpeg_args scl' skip' maxlen' i out ! 5) = (scl = scl')"
  "(ffmpeg_args scl skip maxlen i out ! 7 = ffmpeg_args scl' skip' maxlen' i out ! 7) = (skip = skip')"
  "(ffmpeg_args scl skip maxlen i out ! 9 = ffmpeg_args scl' skip' maxlen' i out ! 9) = (maxlen = maxlen')"
  by (auto simp add: ffmpeg_args_def dest: str_int_inj zfill_str_int_inj)

lemma ffmpeg_args_other_positions:
  "j \<notin> {5, 7, 9} \<Longrightarrow>
     ffmpeg_args scl skip maxlen i out ! j = ffmpeg_args scl' skip' maxlen' i out ! j"
  by (simp add: ffmpeg_args_def nth_Cons')

end
